theory Spec2Isabelle
  imports Main "HOL-Library.Sublist"
begin

section \<open>JavaScript values\<close>

text \<open>
  The gateway handles decoded JSON documents and builds object literals from them.
  A value of the program is one of JavaScript's \<open>undefined\<close>, \<open>null\<close>, a boolean, a
  number, a string, an array or a plain object. Objects are association lists in
  the order in which JavaScript enumerates their properties; a lookup takes the first
  entry of a key (the objects of \<open>JSON.parse\<close> and the literals of the source have no
  key twice). Numbers are
  carried as integers: the handlers never compute with a number, they only pass it on,
  compare it with a string or print it. The model covers the integers that JavaScript
  holds exactly and prints in plain decimal (magnitude below \<open>2^53\<close>); fractions,
  infinities and the exponent form of larger magnitudes are outside it.
\<close>

datatype jsval =
    JUndefined
  | JNull
  | JBool bool
  | JNum int
  | JStr string
  | JArr "jsval list"
  | JObj "(string \<times> jsval) list"

text \<open>\<open>v === undefined || v === null\<close>: the values on which \<open>?.\<close> and \<open>??\<close> give up,
  and whose destructuring raises a TypeError.\<close>

definition nullish :: "jsval \<Rightarrow> bool" where
  "nullish v = (v = JUndefined \<or> v = JNull)"

text \<open>\<open>ToBoolean\<close>: what \<open>||\<close> and \<open>!\<close> test.\<close>

fun truthy :: "jsval \<Rightarrow> bool" where
  "truthy JUndefined = False"
| "truthy JNull = False"
| "truthy (JBool b) = b"
| "truthy (JNum n) = (n \<noteq> 0)"
| "truthy (JStr s) = (s \<noteq> [])"
| "truthy (JArr xs) = True"
| "truthy (JObj kvs) = True"

text \<open>
  \<open>v.k\<close> on a value that is neither \<open>undefined\<close> nor \<open>null\<close>, for the keys the source
  reads (\<open>id\<close>, \<open>method\<close>, \<open>params\<close>, \<open>name\<close>, \<open>arguments\<close>, \<open>query\<close>, \<open>traditions\<close>,
  \<open>topK\<close>, \<open>lang\<close>): an own property of an object, and \<open>undefined\<close> on anything else,
  since none of these keys is a property of a string, a number, a boolean or an array.
\<close>

fun get_prop :: "jsval \<Rightarrow> string \<Rightarrow> jsval" where
  "get_prop (JObj kvs) k = (case map_of kvs k of None \<Rightarrow> JUndefined | Some v \<Rightarrow> v)"
| "get_prop v k = JUndefined"

text \<open>\<open>v?.k\<close>\<close>

definition opt_chain :: "jsval \<Rightarrow> string \<Rightarrow> jsval" where
  "opt_chain v k = (if nullish v then JUndefined else get_prop v k)"

text \<open>\<open>v ?? d\<close>\<close>

definition coalesce :: "jsval \<Rightarrow> jsval \<Rightarrow> jsval" where
  "coalesce v d = (if nullish v then d else v)"

text \<open>\<open>a || b\<close>\<close>

definition js_or :: "jsval \<Rightarrow> jsval \<Rightarrow> jsval" where
  "js_or a b = (if truthy a then a else b)"

section \<open>JSON.stringify\<close>

text \<open>
  The serialiser of the runtime, on the values above: a property whose value is
  \<open>undefined\<close> is left out of an object, \<open>undefined\<close> in an array is printed as
  \<open>null\<close>, strings are quoted with the escapes of the standard.
\<close>

fun show_nat :: "nat \<Rightarrow> string" where
  "show_nat n =
     (if n < 10 then [''0123456789'' ! n]
      else show_nat (n div 10) @ [''0123456789'' ! (n mod 10)])"

declare show_nat.simps [simp del]

definition show_int :: "int \<Rightarrow> string" where
  "show_int i = (if i < 0 then ''-'' @ show_nat (nat (- i)) else show_nat (nat i))"

definition esc_char :: "char \<Rightarrow> string" where
  "esc_char c =
     (if c = CHR 0x22 then [CHR 0x5C, CHR 0x22]
      else if c = CHR 0x5C then [CHR 0x5C, CHR 0x5C]
      else if c = CHR 0x08 then [CHR 0x5C, CHR ''b'']
      else if c = CHR 0x09 then [CHR 0x5C, CHR ''t'']
      else if c = CHR 0x0A then [CHR 0x5C, CHR ''n'']
      else if c = CHR 0x0C then [CHR 0x5C, CHR ''f'']
      else if c = CHR 0x0D then [CHR 0x5C, CHR ''r'']
      else if (of_char c :: nat) < 32 then
        [CHR 0x5C, CHR ''u'', CHR ''0'', CHR ''0'',
         ''0123456789abcdef'' ! ((of_char c :: nat) div 16),
         ''0123456789abcdef'' ! ((of_char c :: nat) mod 16)]
      else [c])"

definition quote :: "string \<Rightarrow> string" where
  "quote s = [CHR 0x22] @ concat (map esc_char s) @ [CHR 0x22]"

fun join_comma :: "string list \<Rightarrow> string" where
  "join_comma [] = []"
| "join_comma [x] = x"
| "join_comma (x # y # ys) = x @ '','' @ join_comma (y # ys)"

primrec ser :: "jsval \<Rightarrow> string option" where
  "ser JUndefined = None"
| "ser JNull = Some ''null''"
| "ser (JBool b) = Some (if b then ''true'' else ''false'')"
| "ser (JNum n) = Some (show_int n)"
| "ser (JStr s) = Some (quote s)"
| "ser (JArr xs) =
     Some (''['' @ join_comma (map (\<lambda>r. case r of None \<Rightarrow> ''null'' | Some s \<Rightarrow> s) (map ser xs))
           @ '']'')"
| "ser (JObj kvs) =
     Some (''{'' @ join_comma (concat (map (\<lambda>(k, r). case r of None \<Rightarrow> []
                                                       | Some s \<Rightarrow> [quote k @ '':'' @ s])
                                        (map (map_prod id ser) kvs)))
           @ ''}'')"

text \<open>
  \<open>JSON.stringify(v)\<close>. The source only ever serialises object literals, for which the
  result is a string; on \<open>undefined\<close> itself (where JavaScript returns \<open>undefined\<close>) the
  text \<open>undefined\<close> of a template string stands in.
\<close>

definition JSON_stringify :: "jsval \<Rightarrow> string" where
  "JSON_stringify v = (case ser v of None \<Rightarrow> ''undefined'' | Some s \<Rightarrow> s)"

section \<open>The backend call\<close>

text \<open>
  \<open>fetch(`${FASTAPI_URL}/query`, {method: "POST", ..., body})\<close> is a parameter of the
  handlers: a function from the request body to what the call does. It rejects with an
  error \<open>e\<close> (kept as the text \<open>String(e)\<close>), or resolves to a response with its \<open>ok\<close>
  flag, its \<open>status\<close>, and what \<open>await r.text()\<close> and \<open>await r.json()\<close> give: the body,
  or again an error.
\<close>

record response =
  r_ok :: bool
  r_status :: nat
  r_text :: "string + string"
  r_json :: "string + jsval"

datatype fetch_outcome = Rejected string | Resolved response

text \<open>
  The effects of a handler: the request bodies posted to the backend, in order, and the
  state of the channel that \<open>responder\<close> writes to.
\<close>

record 'c io =
  fetched :: "string list"
  chan :: 'c

text \<open>
  A call \<open>responder(obj)\<close>. The responders of the transports queue their data and
  raise nothing, so a call only changes the channel.
\<close>

definition reply :: "(jsval \<Rightarrow> 'c \<Rightarrow> 'c) \<Rightarrow> jsval \<Rightarrow> 'c io \<Rightarrow> 'c io" where
  "reply responder obj io = io\<lparr>chan := responder obj (chan io)\<rparr>"

datatype error = TypeError

section \<open>src/server.js: constants and the tool descriptor\<close>

definition PROTOCOL_VERSION :: string where
  "PROTOCOL_VERSION = ''2024-05-14''"

definition SERVER_NAME :: string where
  "SERVER_NAME = ''akasha-mcp''"

definition SERVER_VERSION :: string where
  "SERVER_VERSION = ''0.1.0''"

definition inputSchema :: jsval where
  "inputSchema = JObj [
     (''type'', JStr ''object''),
     (''properties'', JObj [
        (''query'', JObj [(''type'', JStr ''string'')]),
        (''traditions'', JObj [(''oneOf'', JArr [
           JObj [(''type'', JStr ''string'')],
           JObj [(''type'', JStr ''array''), (''items'', JObj [(''type'', JStr ''string'')])]])]),
        (''topK'', JObj [(''type'', JStr ''number''), (''default'', JNum 6)]),
        (''lang'', JObj [(''type'', JStr ''string'')])]),
     (''required'', JArr [JStr ''query'', JStr ''traditions''])]"

definition toolSpec :: jsval where
  "toolSpec = JObj [
     (''name'', JStr ''qdrant_search''),
     (''description'',
      JStr ''Embed + search via Akasha FastAPI /query. Args: query, traditions (string|array), topK, lang.''),
     (''input_schema'', inputSchema),
     (''inputSchema'', inputSchema)]"

section \<open>src/server.js: handleRpcMessage\<close>

text \<open>
  The request body of \<open>tools/call\<close> (the literal \<open>body\<close> of the \<open>try\<close> block), from the
  \<open>arguments\<close> of the call.
\<close>

definition tool_body :: "jsval \<Rightarrow> jsval" where
  "tool_body args = JObj [
     (''query'', opt_chain args ''query''),
     (''traditions'', opt_chain args ''traditions''),
     (''topK'', coalesce (opt_chain args ''topK'') (JNum 6)),
     (''lang'', coalesce (opt_chain args ''lang'') JNull)]"

text \<open>The three results of the \<open>try\<close> block and its \<open>catch\<close>, with the \<open>id\<close> of the call.\<close>

definition gateway_error :: "jsval \<Rightarrow> string \<Rightarrow> jsval" where
  "gateway_error msg_id e = JObj [
     (''jsonrpc'', JStr ''2.0''), (''id'', msg_id),
     (''result'', JObj [
        (''content'', JArr [JObj [(''type'', JStr ''text''), (''text'', JStr (''Gateway error: '' @ e))]]),
        (''isError'', JBool True)])]"

definition backend_error :: "jsval \<Rightarrow> nat \<Rightarrow> string \<Rightarrow> jsval" where
  "backend_error msg_id status errTxt = JObj [
     (''jsonrpc'', JStr ''2.0''), (''id'', msg_id),
     (''result'', JObj [
        (''content'', JArr [JObj [(''type'', JStr ''text''),
           (''text'', JStr (''FastAPI '' @ show_nat status @ '': '' @ errTxt))]]),
        (''isError'', JBool True)])]"

definition backend_data :: "jsval \<Rightarrow> jsval \<Rightarrow> jsval" where
  "backend_data msg_id data = JObj [
     (''jsonrpc'', JStr ''2.0''), (''id'', msg_id),
     (''result'', JObj [
        (''content'', JArr [JObj [(''type'', JStr ''json''), (''data'', data)]]),
        (''isError'', JBool False)])]"

text \<open>
  The \<open>tools/call\<close> branch after the name check: build the body, post it, and answer
  from the outcome. Every rejection inside the \<open>try\<close> block lands in the \<open>catch\<close>.
\<close>

definition call_backend ::
  "(string \<Rightarrow> fetch_outcome) \<Rightarrow> jsval \<Rightarrow> jsval \<Rightarrow> (jsval \<Rightarrow> 'c \<Rightarrow> 'c) \<Rightarrow> 'c io \<Rightarrow> 'c io" where
  "call_backend fetch msg_id args responder io =
     (let body = tool_body args;
          io1 = io\<lparr>fetched := fetched io @ [JSON_stringify body]\<rparr>
      in case fetch (JSON_stringify body) of
           Rejected e \<Rightarrow> reply responder (gateway_error msg_id e) io1
         | Resolved r \<Rightarrow>
             if \<not> r_ok r then
               (case r_text r of
                  Inl e \<Rightarrow> reply responder (gateway_error msg_id e) io1
                | Inr errTxt \<Rightarrow> reply responder (backend_error msg_id (r_status r) errTxt) io1)
             else
               (case r_json r of
                  Inl e \<Rightarrow> reply responder (gateway_error msg_id e) io1
                | Inr data \<Rightarrow> reply responder (backend_data msg_id data) io1))"

text \<open>
  \<open>async function handleRpcMessage(msg, responder)\<close>. The destructuring
  \<open>const { id, method } = msg\<close> raises a TypeError on \<open>null\<close>; after it the branches are
  tried in the order of the source.
\<close>

definition handleRpcMessage ::
  "(string \<Rightarrow> fetch_outcome) \<Rightarrow> jsval \<Rightarrow> (jsval \<Rightarrow> 'c \<Rightarrow> 'c) \<Rightarrow> 'c io \<Rightarrow> error + 'c io" where
  "handleRpcMessage fetch msg responder io =
     (if nullish msg then Inl TypeError
      else
        let msg_id = get_prop msg ''id''; method = get_prop msg ''method'' in
        if method = JStr ''initialize'' then
          Inr (reply responder (JObj [
            (''jsonrpc'', JStr ''2.0''), (''id'', msg_id),
            (''result'', JObj [
               (''protocolVersion'', JStr PROTOCOL_VERSION),
               (''serverInfo'', JObj [(''name'', JStr SERVER_NAME), (''version'', JStr SERVER_VERSION)]),
               (''capabilities'', JObj [
                  (''tools'', JObj [(''list'', JBool True), (''call'', JBool True)]),
                  (''prompts'', JObj [(''list'', JBool True)]),
                  (''resources'', JObj [(''list'', JBool True)])])])]) io)
        else if method = JStr ''notifications/initialized'' then
          Inr (reply responder (JObj [(''jsonrpc'', JStr ''2.0''), (''id'', msg_id),
                 (''result'', JObj [(''ok'', JBool True)])]) io)
        else if method = JStr ''ping'' then
          Inr (reply responder (JObj [(''jsonrpc'', JStr ''2.0''), (''id'', msg_id),
                 (''result'', JObj [(''ok'', JBool True)])]) io)
        else if method = JStr ''resources/list'' then
          Inr (reply responder (JObj [(''jsonrpc'', JStr ''2.0''), (''id'', msg_id),
                 (''result'', JObj [(''resources'', JArr [])])]) io)
        else if method = JStr ''prompts/list'' then
          Inr (reply responder (JObj [(''jsonrpc'', JStr ''2.0''), (''id'', msg_id),
                 (''result'', JObj [(''prompts'', JArr [])])]) io)
        else if method = JStr ''tools/list'' \<or> method = JStr ''listTools''
                \<or> method = JStr ''getTools'' \<or> method = JStr ''get_tools''
                \<or> method = JStr ''list_tools'' then
          Inr (reply responder (JObj [(''jsonrpc'', JStr ''2.0''), (''id'', msg_id),
                 (''result'', JObj [(''tools'', JArr [toolSpec])])]) io)
        else if method = JStr ''tools/call'' then
          (let params = js_or (get_prop msg ''params'') (JObj []);
               name = get_prop params ''name'';
               args = get_prop params ''arguments''
           in if name \<noteq> JStr ''qdrant_search'' then
                Inr (reply responder (JObj [(''jsonrpc'', JStr ''2.0''), (''id'', msg_id),
                       (''error'', JObj [(''code'', JNum (- 32601)), (''message'', JStr ''Unknown tool'')])]) io)
              else Inr (call_backend fetch msg_id args responder io))
        else
          Inr (reply responder (JObj [(''jsonrpc'', JStr ''2.0''), (''id'', msg_id),
                 (''error'', JObj [(''code'', JNum (- 32601)), (''message'', JStr ''Method not found'')])]) io))"

section \<open>src/server.js: the two transports\<close>

text \<open>
  \<open>JSON.parse\<close> is a parameter: a function from the text received to the decoded value,
  \<open>None\<close> where it raises a SyntaxError. Console logging is left out.
\<close>

text \<open>
  The WebSocket connection is the list of frames sent to the client.
  \<open>sendJSON(ws, obj)\<close> sends one frame.
\<close>

definition sendJSON :: "jsval \<Rightarrow> string list \<Rightarrow> string list" where
  "sendJSON obj ws = ws @ [JSON_stringify obj]"

text \<open>
  \<open>ws.on("message", async (buf) => ...)\<close>: undecodable input returns at once; a decoded
  message goes to \<open>handleRpcMessage\<close>, whose TypeError rejects the handler's promise.
\<close>

definition ws_on_message ::
  "(string \<Rightarrow> jsval option) \<Rightarrow> (string \<Rightarrow> fetch_outcome) \<Rightarrow> string \<Rightarrow> string list io
     \<Rightarrow> error + string list io" where
  "ws_on_message JSON_parse fetch buf io =
     (case JSON_parse buf of
        None \<Rightarrow> Inr io
      | Some msg \<Rightarrow> handleRpcMessage fetch msg sendJSON io)"

text \<open>
  The session directory \<open>clients\<close> maps a client id to its open event stream: the
  chunks written to it so far, and its \<open>alive\<close> flag.
\<close>

record sse_client =
  written :: "string list"
  alive :: bool

record http_reply =
  code :: nat
  body :: string

definition sse_frame :: "jsval \<Rightarrow> string" where
  "sse_frame obj =
     ''event: message'' @ [CHR 0x0A] @ ''data: '' @ JSON_stringify obj @ [CHR 0x0A, CHR 0x0A]"

text \<open>The \<open>responder\<close> closure of the POST handler, over the stream of \<open>cid\<close>.\<close>

definition sse_responder ::
  "string \<Rightarrow> jsval \<Rightarrow> (string \<rightharpoonup> sse_client) \<Rightarrow> (string \<rightharpoonup> sse_client)" where
  "sse_responder cid obj clients =
     (case clients cid of
        None \<Rightarrow> clients
      | Some stream \<Rightarrow>
          if \<not> alive stream then clients
          else clients(cid \<mapsto> stream\<lparr>written := written stream @ [sse_frame obj]\<rparr>))"

text \<open>
  \<open>POST /sse?cid=...\<close> with the request body \<open>raw\<close>: the reply to the POST, and the
  effects. Whatever is raised inside the \<open>try\<close> block, by \<open>JSON.parse\<close> or by
  \<open>handleRpcMessage\<close>, is answered with status 400.
\<close>

definition sse_post ::
  "(string \<Rightarrow> jsval option) \<Rightarrow> (string \<Rightarrow> fetch_outcome) \<Rightarrow> string \<Rightarrow> string
     \<Rightarrow> (string \<rightharpoonup> sse_client) io \<Rightarrow> http_reply \<times> (string \<rightharpoonup> sse_client) io" where
  "sse_post JSON_parse fetch cid raw io =
     (if cid = [] \<or> chan io cid = None then (\<lparr>code = 400, body = ''invalid cid''\<rparr>, io)
      else case JSON_parse raw of
             None \<Rightarrow> (\<lparr>code = 400, body = ''bad json''\<rparr>, io)
           | Some msg \<Rightarrow>
               (case handleRpcMessage fetch msg (sse_responder cid) io of
                  Inl e \<Rightarrow> (\<lparr>code = 400, body = ''bad json''\<rparr>, io)
                | Inr io' \<Rightarrow> (\<lparr>code = 200, body = JSON_stringify (JObj [(''ok'', JBool True)])\<rparr>, io')))"

section \<open>src/unnamed/part_000: the server with CORS and keep-alive\<close>

text \<open>
  The second file of \<open>part_000\<close> has its own \<open>handleRpcMessage(msg, respond)\<close>. It starts
  with \<open>const { id, method } = msg || {}; if (!method) return;\<close> and then has the
  branches of \<open>src/server.js\<close>; it raises nothing.
\<close>

definition handleRpcMessage_part_000 ::
  "(string \<Rightarrow> fetch_outcome) \<Rightarrow> jsval \<Rightarrow> (jsval \<Rightarrow> 'c \<Rightarrow> 'c) \<Rightarrow> 'c io \<Rightarrow> 'c io" where
  "handleRpcMessage_part_000 fetch msg respond io =
     (let m = js_or msg (JObj []); msg_id = get_prop m ''id''; method = get_prop m ''method'' in
      if \<not> truthy method then io
      else if method = JStr ''initialize'' then
        reply respond (JObj [
          (''jsonrpc'', JStr ''2.0''), (''id'', msg_id),
          (''result'', JObj [
             (''protocolVersion'', JStr PROTOCOL_VERSION),
             (''serverInfo'', JObj [(''name'', JStr SERVER_NAME), (''version'', JStr SERVER_VERSION)]),
             (''capabilities'', JObj [
                (''tools'', JObj [(''list'', JBool True), (''call'', JBool True)]),
                (''prompts'', JObj [(''list'', JBool True)]),
                (''resources'', JObj [(''list'', JBool True)])])])]) io
      else if method = JStr ''notifications/initialized'' then
        reply respond (JObj [(''jsonrpc'', JStr ''2.0''), (''id'', msg_id),
          (''result'', JObj [(''ok'', JBool True)])]) io
      else if method = JStr ''ping'' then
        reply respond (JObj [(''jsonrpc'', JStr ''2.0''), (''id'', msg_id),
          (''result'', JObj [(''ok'', JBool True)])]) io
      else if method = JStr ''resources/list'' then
        reply respond (JObj [(''jsonrpc'', JStr ''2.0''), (''id'', msg_id),
          (''result'', JObj [(''resources'', JArr [])])]) io
      else if method = JStr ''prompts/list'' then
        reply respond (JObj [(''jsonrpc'', JStr ''2.0''), (''id'', msg_id),
          (''result'', JObj [(''prompts'', JArr [])])]) io
      else if method \<in> set [JStr ''tools/list'', JStr ''listTools'', JStr ''getTools'',
                              JStr ''get_tools'', JStr ''list_tools''] then
        reply respond (JObj [(''jsonrpc'', JStr ''2.0''), (''id'', msg_id),
          (''result'', JObj [(''tools'', JArr [toolSpec])])]) io
      else if method = JStr ''tools/call'' then
        (let params = js_or (get_prop msg ''params'') (JObj []);
             name = get_prop params ''name'';
             args = get_prop params ''arguments''
         in if name \<noteq> JStr ''qdrant_search'' then
              reply respond (JObj [(''jsonrpc'', JStr ''2.0''), (''id'', msg_id),
                (''error'', JObj [(''code'', JNum (- 32601)), (''message'', JStr ''Unknown tool'')])]) io
            else call_backend fetch msg_id args respond io)
      else
        reply respond (JObj [(''jsonrpc'', JStr ''2.0''), (''id'', msg_id),
          (''error'', JObj [(''code'', JNum (- 32601)), (''message'', JStr ''Method not found'')])]) io)"

text \<open>Its WebSocket handler: \<open>ws.send(JSON.stringify(obj))\<close> is \<open>sendJSON\<close>.\<close>

definition ws_on_message_part_000 ::
  "(string \<Rightarrow> jsval option) \<Rightarrow> (string \<Rightarrow> fetch_outcome) \<Rightarrow> string \<Rightarrow> string list io
     \<Rightarrow> string list io" where
  "ws_on_message_part_000 JSON_parse fetch buf io =
     (case JSON_parse buf of
        None \<Rightarrow> io
      | Some msg \<Rightarrow> handleRpcMessage_part_000 fetch msg sendJSON io)"

text \<open>
  Its session directory keeps, for a client id, the chunks written to the stream (the
  keep-alive timer is left out); its \<open>responder\<close> writes to the stream \<open>ch\<close> looked up
  when the POST arrived, with no \<open>alive\<close> test.
\<close>

definition sse_responder_part_000 ::
  "string \<Rightarrow> jsval \<Rightarrow> (string \<rightharpoonup> string list) \<Rightarrow> (string \<rightharpoonup> string list)" where
  "sse_responder_part_000 cid obj clients =
     (case clients cid of
        None \<Rightarrow> clients
      | Some ch \<Rightarrow> clients(cid \<mapsto> ch @ [sse_frame obj]))"

definition sse_post_part_000 ::
  "(string \<Rightarrow> jsval option) \<Rightarrow> (string \<Rightarrow> fetch_outcome) \<Rightarrow> string \<Rightarrow> string
     \<Rightarrow> (string \<rightharpoonup> string list) io \<Rightarrow> http_reply \<times> (string \<rightharpoonup> string list) io" where
  "sse_post_part_000 JSON_parse fetch cid raw io =
     (if cid = [] \<or> chan io cid = None then (\<lparr>code = 400, body = ''invalid cid''\<rparr>, io)
      else case JSON_parse raw of
             None \<Rightarrow> (\<lparr>code = 400, body = ''bad json''\<rparr>, io)
           | Some msg \<Rightarrow>
               (\<lparr>code = 200, body = JSON_stringify (JObj [(''ok'', JBool True)])\<rparr>,
                handleRpcMessage_part_000 fetch msg (sse_responder_part_000 cid) io))"

section \<open>src/unnamed/part_000: the lite gateway\<close>

text \<open>
  The first file of \<open>part_000\<close> serves the WebSocket only and handles each message
  inline, without \<open>handleRpcMessage\<close>: it knows \<open>initialize\<close>, \<open>tools/list\<close> and
  \<open>tools/call\<close>, advertises the schema under \<open>inputSchema\<close> alone, and parses the body of
  the backend's response whatever its status.
\<close>

definition toolSpec_lite :: jsval where
  "toolSpec_lite = JObj [
     (''name'', JStr ''qdrant_search''),
     (''description'',
      JStr ''Embed + search via Akasha FastAPI /query. Args: query, traditions (string|array), topK, lang.''),
     (''inputSchema'', inputSchema)]"

definition lite_on_message ::
  "(string \<Rightarrow> jsval option) \<Rightarrow> (string \<Rightarrow> fetch_outcome) \<Rightarrow> string \<Rightarrow> string list io
     \<Rightarrow> error + string list io" where
  "lite_on_message JSON_parse fetch buf io =
     (case JSON_parse buf of
        None \<Rightarrow> Inr io
      | Some req \<Rightarrow>
          if nullish req then Inl TypeError
          else if get_prop req ''method'' = JStr ''initialize'' then
            Inr (reply sendJSON (JObj [
              (''jsonrpc'', JStr ''2.0''), (''id'', get_prop req ''id''),
              (''result'', JObj [(''protocolVersion'', JStr ''2024-05-14''),
                                 (''capabilities'', JObj [])])]) io)
          else if get_prop req ''method'' = JStr ''tools/list'' then
            Inr (reply sendJSON (JObj [(''jsonrpc'', JStr ''2.0''), (''id'', get_prop req ''id''),
                   (''result'', JObj [(''tools'', JArr [toolSpec_lite])])]) io)
          else if get_prop req ''method'' = JStr ''tools/call'' then
            (let params = js_or (get_prop req ''params'') (JObj []);
                 name = get_prop params ''name'';
                 args = get_prop params ''arguments''
             in if name \<noteq> JStr ''qdrant_search'' then
                  Inr (reply sendJSON (JObj [(''jsonrpc'', JStr ''2.0''), (''id'', get_prop req ''id''),
                         (''error'', JObj [(''code'', JNum (- 32601)),
                                           (''message'', JStr ''Unknown tool'')])]) io)
                else
                  (let body = tool_body args;
                       io1 = io\<lparr>fetched := fetched io @ [JSON_stringify body]\<rparr>
                   in case fetch (JSON_stringify body) of
                        Rejected e \<Rightarrow> Inr (reply sendJSON (gateway_error (get_prop req ''id'') e) io1)
                      | Resolved r \<Rightarrow>
                          (case r_json r of
                             Inl e \<Rightarrow> Inr (reply sendJSON (gateway_error (get_prop req ''id'') e) io1)
                           | Inr data \<Rightarrow>
                               Inr (reply sendJSON (backend_data (get_prop req ''id'') data) io1))))
          else
            Inr (reply sendJSON (JObj [(''jsonrpc'', JStr ''2.0''), (''id'', get_prop req ''id''),
                   (''error'', JObj [(''code'', JNum (- 32601)),
                                     (''message'', JStr ''Method not found'')])]) io))"

section \<open>Properties of the handlers\<close>

lemmas handler_defs =
  Let_def reply_def call_backend_def gateway_error_def backend_error_def backend_data_def

lemmas eval_defs =
  tool_body_def opt_chain_def coalesce_def nullish_def js_or_def JSON_stringify_def quote_def
  esc_char_def show_int_def show_nat.simps sendJSON_def sse_frame_def

subsection \<open>Reading properties\<close>

text \<open>
  A key that reads as something is read from an object: the value is then neither
  \<open>undefined\<close> nor \<open>null\<close>, and \<open>||\<close> keeps it.
\<close>

lemma get_prop_defined:
  "get_prop v k \<noteq> JUndefined \<Longrightarrow> truthy v \<and> \<not> nullish v \<and> js_or v d = v"
  by (cases v) (simp_all add: nullish_def js_or_def)

lemma truthy_defined: "truthy v \<Longrightarrow> v \<noteq> JUndefined"
  by (cases v) simp_all

text \<open>
  A key that reads as a string is read from an object, and so is the \<open>name\<close> of
  \<open>params\<close>: for the name check \<open>msg.params || {}\<close> reads like \<open>msg.params\<close>.
\<close>

lemma reads_string:
  assumes "get_prop v k = JStr s"
  shows "\<not> nullish v" and "js_or v d = v"
  using assms by (cases v; simp add: nullish_def js_or_def)+

lemma params_or_empty: "get_prop (js_or p (JObj [])) k = get_prop p k"
  by (cases p) (simp_all add: js_or_def)

subsection \<open>What JSON.stringify prints of an envelope\<close>

text \<open>
  Only \<open>undefined\<close> has no serialisation, so a response whose \<open>id\<close> is \<open>undefined\<close> goes
  out without an \<open>id\<close> member, and any other \<open>id\<close> goes out as the second member.
\<close>

lemma ser_None_iff: "ser v = None \<longleftrightarrow> v = JUndefined"
  by (cases v) simp_all

lemma envelope_on_the_wire:
  assumes "ser p = Some ps"
  shows "JSON_stringify (JObj [(''jsonrpc'', JStr ''2.0''), (''id'', JUndefined), (k, p)])
           = ''{\"jsonrpc\":\"2.0\",'' @ quote k @ '':'' @ ps @ ''}''"
    and "ser i = Some js \<Longrightarrow>
         JSON_stringify (JObj [(''jsonrpc'', JStr ''2.0''), (''id'', i), (k, p)])
           = ''{\"jsonrpc\":\"2.0\",\"id\":'' @ js @ '','' @ quote k @ '':'' @ ps @ ''}''"
  using assms by (simp_all add: JSON_stringify_def quote_def esc_char_def)

subsection \<open>The two versions of handleRpcMessage\<close>

text \<open>
  On a message whose \<open>method\<close> is truthy, the handler of \<open>part_000\<close> does what the
  handler of \<open>src/server.js\<close> does; every other message it drops.
\<close>

lemma part_000_agrees:
  assumes "truthy (get_prop msg ''method'')"
  shows "handleRpcMessage fetch msg responder io = Inr (handleRpcMessage_part_000 fetch msg responder io)"
proof -
  from assms have "get_prop msg ''method'' \<noteq> JUndefined" by (rule truthy_defined)
  then have m: "\<not> nullish msg" "js_or msg (JObj []) = msg" by (simp_all add: get_prop_defined)
  show ?thesis
    using assms m by (simp add: handleRpcMessage_def handleRpcMessage_part_000_def Let_def)
qed

lemma part_000_drops:
  "\<not> truthy (get_prop (js_or msg (JObj [])) ''method'') \<Longrightarrow>
     handleRpcMessage_part_000 fetch msg respond io = io"
  by (simp add: handleRpcMessage_part_000_def Let_def)

text \<open>
  Whenever \<open>handleRpcMessage\<close> returns, it has called \<open>responder\<close> once, with an
  envelope that carries the \<open>id\<close> read from the message.
\<close>

lemma handleRpcMessage_answers:
  "handleRpcMessage fetch msg responder io = Inr io' \<Longrightarrow>
     \<exists>k p. chan io' = responder (JObj [(''jsonrpc'', JStr ''2.0''), (''id'', get_prop msg ''id''), (k, p)]) (chan io)"
  unfolding handleRpcMessage_def handler_defs
  by (auto split: if_splits fetch_outcome.splits sum.splits intro!: exI)

text \<open>A \<open>tools/call\<close> of \<open>qdrant_search\<close> goes to the backend, with the \<open>arguments\<close> of the message.\<close>

lemma tools_call_registered:
  assumes "get_prop msg ''method'' = JStr ''tools/call''"
    and "get_prop (get_prop msg ''params'') ''name'' = JStr ''qdrant_search''"
  shows "handleRpcMessage fetch msg responder io =
           Inr (call_backend fetch (get_prop msg ''id'')
                  (get_prop (get_prop msg ''params'') ''arguments'') responder io)"
proof -
  from assms(1) have m: "\<not> nullish msg" by (rule reads_string)
  from assms(2) have p: "js_or (get_prop msg ''params'') (JObj []) = get_prop msg ''params''"
    by (rule reads_string)
  show ?thesis
    using assms m p by (simp add: handleRpcMessage_def Let_def)
qed

text \<open>The backend step posts exactly one request, whose body is \<open>JSON.stringify(body)\<close>.\<close>

lemma call_backend_fetched:
  "fetched (call_backend fetch msg_id args responder io) = fetched io @ [JSON_stringify (tool_body args)]"
  by (simp add: call_backend_def Let_def reply_def split: fetch_outcome.splits sum.splits)

subsection \<open>The lite gateway\<close>

text \<open>
  Its \<open>initialize\<close> answers with the protocol version and empty capabilities, and its
  \<open>tools/call\<close> never looks at \<open>r.ok\<close>: a response whose body parses is passed on as
  data, whatever the status.
\<close>

lemma lite_initialize:
  assumes "JSON_parse buf = Some req" and "get_prop req ''method'' = JStr ''initialize''"
  shows "lite_on_message JSON_parse fetch buf io =
           Inr (io\<lparr>chan := chan io @ [JSON_stringify (JObj [
              (''jsonrpc'', JStr ''2.0''), (''id'', get_prop req ''id''),
              (''result'', JObj [(''protocolVersion'', JStr ''2024-05-14''),
                                 (''capabilities'', JObj [])])])]\<rparr>)"
proof -
  from assms(2) have "\<not> nullish req" by (rule reads_string)
  with assms show ?thesis
    by (simp add: lite_on_message_def reply_def sendJSON_def)
qed

lemma lite_ignores_status:
  assumes "JSON_parse buf = Some req" and "get_prop req ''method'' = JStr ''tools/call''"
    and "get_prop (get_prop req ''params'') ''name'' = JStr ''qdrant_search''"
    and "fetch (JSON_stringify (tool_body (get_prop (get_prop req ''params'') ''arguments''))) = Resolved r"
    and "r_json r = Inr P"
  shows "lite_on_message JSON_parse fetch buf io =
           Inr (io\<lparr>fetched := fetched io @
                     [JSON_stringify (tool_body (get_prop (get_prop req ''params'') ''arguments''))],
                   chan := chan io @ [JSON_stringify (JObj [
                     (''jsonrpc'', JStr ''2.0''), (''id'', get_prop req ''id''),
                     (''result'', JObj [
                        (''content'', JArr [JObj [(''type'', JStr ''json''), (''data'', P)]]),
                        (''isError'', JBool False)])])]\<rparr>)"
proof -
  from assms(2) have m: "\<not> nullish req" by (rule reads_string)
  from assms(3) have p: "js_or (get_prop req ''params'') (JObj []) = get_prop req ''params''"
    by (rule reads_string)
  show ?thesis
    using assms m p
    by (simp add: lite_on_message_def Let_def reply_def sendJSON_def backend_data_def)
qed

section \<open>The properties of the specification\<close>

text \<open>
  C1. Every response carries the \<open>id\<close> of the message it answers, whatever the method
  and the outcome: the object handed to \<open>responder\<close> is
  \<open>{jsonrpc: "2.0", id, result | error}\<close> with \<open>id\<close> the value read from the message,
  which is \<open>undefined\<close> when the message has none (and \<open>JSON.stringify\<close> then prints no
  \<open>id\<close> member). This holds for the handler itself, for the frame sent on the WebSocket,
  for the event written on the stream of an open session, and for the handler of
  \<open>part_000\<close> on every message it answers.
\<close>

theorem correlation_id_echoed:
  "(handleRpcMessage fetch msg responder io = Inr io' \<longrightarrow>
      (\<exists>k p. chan io' = responder (JObj [(''jsonrpc'', JStr ''2.0''), (''id'', get_prop msg ''id''), (k, p)]) (chan io)))
   \<and> (JSON_parse buf = Some msg \<and> ws_on_message JSON_parse fetch buf wio = Inr wio' \<longrightarrow>
      (\<exists>k p. chan wio' = chan wio @ [JSON_stringify (JObj [(''jsonrpc'', JStr ''2.0''), (''id'', get_prop msg ''id''), (k, p)])]))
   \<and> (JSON_parse raw = Some msg \<and> chan sio cid = Some stream \<and> alive stream
        \<and> sse_post JSON_parse fetch cid raw sio = (rep, sio') \<and> code rep = 200 \<longrightarrow>
      (\<exists>k p. chan sio' = (chan sio)(cid \<mapsto> stream\<lparr>written := written stream @
                 [sse_frame (JObj [(''jsonrpc'', JStr ''2.0''), (''id'', get_prop msg ''id''), (k, p)])]\<rparr>)))
   \<and> (truthy (get_prop msg ''method'') \<longrightarrow>
      (\<exists>k p. chan (handleRpcMessage_part_000 fetch msg responder io) =
                responder (JObj [(''jsonrpc'', JStr ''2.0''), (''id'', get_prop msg ''id''), (k, p)]) (chan io)))"
proof (intro conjI impI)
  assume "handleRpcMessage fetch msg responder io = Inr io'"
  then show "\<exists>k p. chan io' = responder (JObj [(''jsonrpc'', JStr ''2.0''), (''id'', get_prop msg ''id''), (k, p)]) (chan io)"
    by (rule handleRpcMessage_answers)
next
  assume "JSON_parse buf = Some msg \<and> ws_on_message JSON_parse fetch buf wio = Inr wio'"
  then have "handleRpcMessage fetch msg sendJSON wio = Inr wio'"
    by (clarsimp simp: ws_on_message_def)
  from handleRpcMessage_answers [OF this]
  show "\<exists>k p. chan wio' = chan wio @ [JSON_stringify (JObj [(''jsonrpc'', JStr ''2.0''), (''id'', get_prop msg ''id''), (k, p)])]"
    by (simp add: sendJSON_def)
next
  assume a: "JSON_parse raw = Some msg \<and> chan sio cid = Some stream \<and> alive stream
        \<and> sse_post JSON_parse fetch cid raw sio = (rep, sio') \<and> code rep = 200"
  then have "handleRpcMessage fetch msg (sse_responder cid) sio = Inr sio'"
    by (auto simp: sse_post_def split: if_splits sum.splits)
  from handleRpcMessage_answers [OF this] a
  show "\<exists>k p. chan sio' = (chan sio)(cid \<mapsto> stream\<lparr>written := written stream @
                 [sse_frame (JObj [(''jsonrpc'', JStr ''2.0''), (''id'', get_prop msg ''id''), (k, p)])]\<rparr>)"
    by (simp add: sse_responder_def)
next
  assume t: "truthy (get_prop msg ''method'')"
  from part_000_agrees [OF t]
  have "handleRpcMessage fetch msg responder io = Inr (handleRpcMessage_part_000 fetch msg responder io)" .
  from handleRpcMessage_answers [OF this]
  show "\<exists>k p. chan (handleRpcMessage_part_000 fetch msg responder io) =
                responder (JObj [(''jsonrpc'', JStr ''2.0''), (''id'', get_prop msg ''id''), (k, p)]) (chan io)" .
qed

theorem correlation_id_echoed_witness:
  "handleRpcMessage (\<lambda>b. Rejected ''down'') (JObj [(''id'', JNum 7), (''method'', JStr ''ping'')]) sendJSON
      \<lparr>fetched = [], chan = []\<rparr>
     = Inr \<lparr>fetched = [], chan = [''{\"jsonrpc\":\"2.0\",\"id\":7,\"result\":{\"ok\":true}}'']\<rparr>
   \<and> (\<exists>k p. [''{\"jsonrpc\":\"2.0\",\"id\":7,\"result\":{\"ok\":true}}'']
          = sendJSON (JObj [(''jsonrpc'', JStr ''2.0''), (''id'', JNum 7), (k, p)]) [])
   \<and> ws_on_message (\<lambda>s. if s = ''ping'' then Some (JObj [(''id'', JNum 7), (''method'', JStr ''ping'')]) else None)
        (\<lambda>b. Rejected ''down'') ''ping'' \<lparr>fetched = [], chan = []\<rparr>
     = Inr \<lparr>fetched = [], chan = [''{\"jsonrpc\":\"2.0\",\"id\":7,\"result\":{\"ok\":true}}'']\<rparr>
   \<and> fst (sse_post (\<lambda>s. if s = ''ping'' then Some (JObj [(''id'', JNum 7), (''method'', JStr ''ping'')]) else None)
        (\<lambda>b. Rejected ''down'') ''abc'' ''ping''
        \<lparr>fetched = [], chan = [''abc'' \<mapsto> \<lparr>written = [], alive = True\<rparr>]\<rparr>)
     = \<lparr>code = 200, body = ''{\"ok\":true}''\<rparr>
   \<and> (\<exists>k p. chan (snd (sse_post (\<lambda>s. if s = ''ping'' then Some (JObj [(''id'', JNum 7), (''method'', JStr ''ping'')]) else None)
        (\<lambda>b. Rejected ''down'') ''abc'' ''ping''
        \<lparr>fetched = [], chan = [''abc'' \<mapsto> \<lparr>written = [], alive = True\<rparr>]\<rparr>))
       = [''abc'' \<mapsto> \<lparr>written = [sse_frame (JObj [(''jsonrpc'', JStr ''2.0''), (''id'', JNum 7), (k, p)])], alive = True\<rparr>])
   \<and> truthy (get_prop (JObj [(''id'', JNum 7), (''method'', JStr ''ping'')]) ''method'')"
  using correlation_id_echoed
    [where fetch = "\<lambda>b. Rejected ''down''"
       and msg = "JObj [(''id'', JNum 7), (''method'', JStr ''ping'')]"
       and responder = sendJSON
       and io = "\<lparr>fetched = [], chan = []\<rparr>"
       and io' = "\<lparr>fetched = [], chan = [''{\"jsonrpc\":\"2.0\",\"id\":7,\"result\":{\"ok\":true}}'']\<rparr>"
       and JSON_parse = "\<lambda>s. if s = ''ping'' then Some (JObj [(''id'', JNum 7), (''method'', JStr ''ping'')]) else None"
       and buf = "''ping''" and raw = "''ping''"
       and wio = "\<lparr>fetched = [], chan = []\<rparr>"
       and wio' = "\<lparr>fetched = [], chan = [''{\"jsonrpc\":\"2.0\",\"id\":7,\"result\":{\"ok\":true}}'']\<rparr>"
       and sio = "\<lparr>fetched = [], chan = [''abc'' \<mapsto> \<lparr>written = [], alive = True\<rparr>]\<rparr>"
       and cid = "''abc''" and stream = "\<lparr>written = [], alive = True\<rparr>"
       and rep = "\<lparr>code = 200, body = ''{\"ok\":true}''\<rparr>"
       and sio' = "snd (sse_post (\<lambda>s. if s = ''ping'' then Some (JObj [(''id'', JNum 7), (''method'', JStr ''ping'')]) else None)
        (\<lambda>b. Rejected ''down'') ''abc'' ''ping''
        \<lparr>fetched = [], chan = [''abc'' \<mapsto> \<lparr>written = [], alive = True\<rparr>]\<rparr>)"]
  by (simp add: handleRpcMessage_def ws_on_message_def sse_post_def sse_responder_def nullish_def reply_def sendJSON_def
        JSON_stringify_def quote_def esc_char_def show_int_def show_nat.simps)

text \<open>
  C2. Input that \<open>JSON.parse\<close> rejects produces no protocol message on either
  transport, in both servers: nothing is sent on the WebSocket, nothing is written on
  any event stream, and the backend is not called. The POST itself is answered with
  status 400.
\<close>

theorem undecodable_input_is_dropped:
  "JSON_parse buf = None \<Longrightarrow>
     ws_on_message JSON_parse fetch buf wio = Inr wio
   \<and> snd (sse_post JSON_parse fetch cid buf sio) = sio
   \<and> code (fst (sse_post JSON_parse fetch cid buf sio)) = 400
   \<and> ws_on_message_part_000 JSON_parse fetch buf wio = wio
   \<and> snd (sse_post_part_000 JSON_parse fetch cid buf pio) = pio
   \<and> code (fst (sse_post_part_000 JSON_parse fetch cid buf pio)) = 400"
  by (simp add: ws_on_message_def sse_post_def ws_on_message_part_000_def sse_post_part_000_def)

theorem undecodable_input_is_dropped_witness:
  "(\<lambda>s. if s = ''null'' then Some JNull else None) ''{oops'' = None
   \<and> ws_on_message (\<lambda>s. if s = ''null'' then Some JNull else None) (\<lambda>b. Rejected ''down'') ''{oops''
        \<lparr>fetched = [], chan = []\<rparr> = Inr \<lparr>fetched = [], chan = []\<rparr>
   \<and> sse_post (\<lambda>s. if s = ''null'' then Some JNull else None) (\<lambda>b. Rejected ''down'') ''abc'' ''{oops''
        \<lparr>fetched = [], chan = [''abc'' \<mapsto> \<lparr>written = [], alive = True\<rparr>]\<rparr>
       = (\<lparr>code = 400, body = ''bad json''\<rparr>,
          \<lparr>fetched = [], chan = [''abc'' \<mapsto> \<lparr>written = [], alive = True\<rparr>]\<rparr>)
   \<and> ws_on_message_part_000 (\<lambda>s. if s = ''null'' then Some JNull else None) (\<lambda>b. Rejected ''down'') ''{oops''
        \<lparr>fetched = [], chan = []\<rparr> = \<lparr>fetched = [], chan = []\<rparr>
   \<and> sse_post_part_000 (\<lambda>s. if s = ''null'' then Some JNull else None) (\<lambda>b. Rejected ''down'') ''abc'' ''{oops''
        \<lparr>fetched = [], chan = [''abc'' \<mapsto> []]\<rparr>
       = (\<lparr>code = 400, body = ''bad json''\<rparr>, \<lparr>fetched = [], chan = [''abc'' \<mapsto> []]\<rparr>)"
  using undecodable_input_is_dropped
    [where JSON_parse = "\<lambda>s. if s = ''null'' then Some JNull else None" and buf = "''{oops''"
       and fetch = "\<lambda>b. Rejected ''down''" and wio = "\<lparr>fetched = [], chan = []\<rparr>" and cid = "''abc''"
       and sio = "\<lparr>fetched = [], chan = [''abc'' \<mapsto> \<lparr>written = [], alive = True\<rparr>]\<rparr>"
       and pio = "\<lparr>fetched = [], chan = [''abc'' \<mapsto> []]\<rparr>"]
  by (simp add: sse_post_def sse_post_part_000_def)

text \<open>
  C3. A \<open>tools/call\<close> of the registered tool always returns, with a \<open>result\<close> and never
  an \<open>error\<close> member or an exception. If the call to the backend rejects, or reading the
  text of a non-success response rejects, or the body of a success response does not
  parse, the result is \<open>{content: [{type: "text", text: "Gateway error: " + String(e)}],
  isError: true}\<close>, with \<open>e\<close> what was raised.
\<close>

theorem backend_failure_is_gateway_error:
  assumes "get_prop msg ''method'' = JStr ''tools/call''"
    and "get_prop (get_prop msg ''params'') ''name'' = JStr ''qdrant_search''"
    and "b = JSON_stringify (tool_body (get_prop (get_prop msg ''params'') ''arguments''))"
  shows "(\<exists>payload. handleRpcMessage fetch msg responder io =
            Inr (io\<lparr>fetched := fetched io @ [b],
                    chan := responder (JObj [(''jsonrpc'', JStr ''2.0''), (''id'', get_prop msg ''id''),
                                             (''result'', payload)]) (chan io)\<rparr>))
       \<and> (fetch b = Rejected e
            \<or> (\<exists>r. fetch b = Resolved r \<and> \<not> r_ok r \<and> r_text r = Inl e)
            \<or> (\<exists>r. fetch b = Resolved r \<and> r_ok r \<and> r_json r = Inl e)
          \<longrightarrow> handleRpcMessage fetch msg responder io =
            Inr (io\<lparr>fetched := fetched io @ [b],
                    chan := responder (JObj [(''jsonrpc'', JStr ''2.0''), (''id'', get_prop msg ''id''),
                      (''result'', JObj [
                         (''content'', JArr [JObj [(''type'', JStr ''text''),
                                                   (''text'', JStr (''Gateway error: '' @ e))]]),
                         (''isError'', JBool True)])]) (chan io)\<rparr>))"
proof (intro conjI impI)
  show "\<exists>payload. handleRpcMessage fetch msg responder io =
            Inr (io\<lparr>fetched := fetched io @ [b],
                    chan := responder (JObj [(''jsonrpc'', JStr ''2.0''), (''id'', get_prop msg ''id''),
                                             (''result'', payload)]) (chan io)\<rparr>)"
    unfolding tools_call_registered [OF assms(1,2)] assms(3) handler_defs
    by (auto split: fetch_outcome.splits sum.splits)
next
  assume "fetch b = Rejected e
            \<or> (\<exists>r. fetch b = Resolved r \<and> \<not> r_ok r \<and> r_text r = Inl e)
            \<or> (\<exists>r. fetch b = Resolved r \<and> r_ok r \<and> r_json r = Inl e)"
  then show "handleRpcMessage fetch msg responder io =
            Inr (io\<lparr>fetched := fetched io @ [b],
                    chan := responder (JObj [(''jsonrpc'', JStr ''2.0''), (''id'', get_prop msg ''id''),
                      (''result'', JObj [
                         (''content'', JArr [JObj [(''type'', JStr ''text''),
                                                   (''text'', JStr (''Gateway error: '' @ e))]]),
                         (''isError'', JBool True)])]) (chan io)\<rparr>)"
    unfolding tools_call_registered [OF assms(1,2)] handler_defs
    using assms(3) by auto
qed

theorem backend_failure_is_gateway_error_witness:
  "get_prop (JObj [(''id'', JNum 3), (''method'', JStr ''tools/call''),
       (''params'', JObj [(''name'', JStr ''qdrant_search''),
          (''arguments'', JObj [(''query'', JStr ''karma''), (''traditions'', JStr ''buddhism'')])])]) ''method''
     = JStr ''tools/call''
   \<and> (\<lambda>b. Rejected ''FetchError: ECONNREFUSED'')
         ''{\"query\":\"karma\",\"traditions\":\"buddhism\",\"topK\":6,\"lang\":null}''
       = Rejected ''FetchError: ECONNREFUSED''
   \<and> handleRpcMessage (\<lambda>b. Rejected ''FetchError: ECONNREFUSED'')
       (JObj [(''id'', JNum 3), (''method'', JStr ''tools/call''),
          (''params'', JObj [(''name'', JStr ''qdrant_search''),
             (''arguments'', JObj [(''query'', JStr ''karma''), (''traditions'', JStr ''buddhism'')])])])
       sendJSON \<lparr>fetched = [], chan = []\<rparr>
     = Inr \<lparr>fetched = [''{\"query\":\"karma\",\"traditions\":\"buddhism\",\"topK\":6,\"lang\":null}''],
            chan = [''{\"jsonrpc\":\"2.0\",\"id\":3,\"result\":{\"content\":[{\"type\":\"text\",\"text\":\"Gateway error: FetchError: ECONNREFUSED\"}],\"isError\":true}}'']\<rparr>"
  using backend_failure_is_gateway_error
    [where msg = "JObj [(''id'', JNum 3), (''method'', JStr ''tools/call''),
          (''params'', JObj [(''name'', JStr ''qdrant_search''),
             (''arguments'', JObj [(''query'', JStr ''karma''), (''traditions'', JStr ''buddhism'')])])]"
       and b = "''{\"query\":\"karma\",\"traditions\":\"buddhism\",\"topK\":6,\"lang\":null}''"
       and fetch = "\<lambda>b. Rejected ''FetchError: ECONNREFUSED''"
       and e = "''FetchError: ECONNREFUSED''"
       and responder = sendJSON and io = "\<lparr>fetched = [], chan = []\<rparr>"]
  by (simp add: eval_defs)

text \<open>
  C4, amended. When the backend answers a \<open>tools/call\<close> with a non-success status and a
  textual body, the result is \<open>isError: true\<close> with exactly one text part, and the text is
  \<open>FastAPI <status>: <body>\<close>: the status in decimal after the prefix \<open>FastAPI\<close> and a
  space, then a colon, a space and the body. The text contains the status code.
\<close>

theorem backend_error_status_text:
  assumes "get_prop msg ''method'' = JStr ''tools/call''"
    and "get_prop (get_prop msg ''params'') ''name'' = JStr ''qdrant_search''"
    and "b = JSON_stringify (tool_body (get_prop (get_prop msg ''params'') ''arguments''))"
    and "fetch b = Resolved r" and "\<not> r_ok r" and "r_text r = Inr errTxt"
  shows "handleRpcMessage fetch msg responder io =
            Inr (io\<lparr>fetched := fetched io @ [b],
                    chan := responder (JObj [(''jsonrpc'', JStr ''2.0''), (''id'', get_prop msg ''id''),
                      (''result'', JObj [
                         (''content'', JArr [JObj [(''type'', JStr ''text''),
                            (''text'', JStr (''FastAPI '' @ show_nat (r_status r) @ '': '' @ errTxt))]]),
                         (''isError'', JBool True)])]) (chan io)\<rparr>)
       \<and> sublist (show_nat (r_status r)) (''FastAPI '' @ show_nat (r_status r) @ '': '' @ errTxt)"
proof
  show "handleRpcMessage fetch msg responder io =
            Inr (io\<lparr>fetched := fetched io @ [b],
                    chan := responder (JObj [(''jsonrpc'', JStr ''2.0''), (''id'', get_prop msg ''id''),
                      (''result'', JObj [
                         (''content'', JArr [JObj [(''type'', JStr ''text''),
                            (''text'', JStr (''FastAPI '' @ show_nat (r_status r) @ '': '' @ errTxt))]]),
                         (''isError'', JBool True)])]) (chan io)\<rparr>)"
    unfolding tools_call_registered [OF assms(1,2)] handler_defs
    using assms(3-6) by simp
  show "sublist (show_nat (r_status r)) (''FastAPI '' @ show_nat (r_status r) @ '': '' @ errTxt)"
    by (rule sublist_appendI)
qed

theorem backend_error_status_text_witness:
  "\<not> r_ok \<lparr>r_ok = False, r_status = 500, r_text = Inr ''oops'', r_json = Inl ''SyntaxError''\<rparr>
   \<and> handleRpcMessage
     (\<lambda>b. Resolved \<lparr>r_ok = False, r_status = 500, r_text = Inr ''oops'', r_json = Inl ''SyntaxError''\<rparr>)
     (JObj [(''id'', JNum 4), (''method'', JStr ''tools/call''),
        (''params'', JObj [(''name'', JStr ''qdrant_search''),
           (''arguments'', JObj [(''query'', JStr ''karma''), (''traditions'', JStr ''buddhism'')])])])
     sendJSON \<lparr>fetched = [], chan = []\<rparr>
   = Inr \<lparr>fetched = [''{\"query\":\"karma\",\"traditions\":\"buddhism\",\"topK\":6,\"lang\":null}''],
          chan = [''{\"jsonrpc\":\"2.0\",\"id\":4,\"result\":{\"content\":[{\"type\":\"text\",\"text\":\"FastAPI 500: oops\"}],\"isError\":true}}'']\<rparr>
   \<and> sublist ''500'' ''FastAPI 500: oops''"
  using backend_error_status_text
    [where msg = "JObj [(''id'', JNum 4), (''method'', JStr ''tools/call''),
        (''params'', JObj [(''name'', JStr ''qdrant_search''),
           (''arguments'', JObj [(''query'', JStr ''karma''), (''traditions'', JStr ''buddhism'')])])]"
       and b = "''{\"query\":\"karma\",\"traditions\":\"buddhism\",\"topK\":6,\"lang\":null}''"
       and fetch = "\<lambda>b. Resolved \<lparr>r_ok = False, r_status = 500, r_text = Inr ''oops'', r_json = Inl ''SyntaxError''\<rparr>"
       and r = "\<lparr>r_ok = False, r_status = 500, r_text = Inr ''oops'', r_json = Inl ''SyntaxError''\<rparr>"
       and errTxt = "''oops''"
       and responder = sendJSON and io = "\<lparr>fetched = [], chan = []\<rparr>"]
  by (simp add: eval_defs)

text \<open>
  The text is not \<open>500: oops\<close> on status 500 with body \<open>oops\<close>: the handler answers
  \<open>FastAPI 500: oops\<close>.
\<close>

theorem backend_error_status_text_counterexample:
  "handleRpcMessage
     (\<lambda>b. Resolved \<lparr>r_ok = False, r_status = 500, r_text = Inr ''oops'', r_json = Inl ''SyntaxError''\<rparr>)
     (JObj [(''id'', JNum 4), (''method'', JStr ''tools/call''),
        (''params'', JObj [(''name'', JStr ''qdrant_search''),
           (''arguments'', JObj [(''query'', JStr ''karma''), (''traditions'', JStr ''buddhism'')])])])
     (\<lambda>obj sent. sent @ [obj]) \<lparr>fetched = [], chan = []\<rparr>
   = Inr \<lparr>fetched = [''{\"query\":\"karma\",\"traditions\":\"buddhism\",\"topK\":6,\"lang\":null}''],
          chan = [JObj [(''jsonrpc'', JStr ''2.0''), (''id'', JNum 4),
            (''result'', JObj [
               (''content'', JArr [JObj [(''type'', JStr ''text''), (''text'', JStr ''FastAPI 500: oops'')]]),
               (''isError'', JBool True)])]]\<rparr>
   \<and> ''FastAPI 500: oops'' \<noteq> ''500: oops''"
  by (simp add: handleRpcMessage_def handler_defs eval_defs)

text \<open>
  C5. When the backend answers a \<open>tools/call\<close> with success and a body that parses to
  \<open>P\<close>, the result is \<open>isError: false\<close> with exactly one content part,
  \<open>{type: "json", data: P}\<close>.
\<close>

theorem backend_success_is_json_part:
  assumes "get_prop msg ''method'' = JStr ''tools/call''"
    and "get_prop (get_prop msg ''params'') ''name'' = JStr ''qdrant_search''"
    and "b = JSON_stringify (tool_body (get_prop (get_prop msg ''params'') ''arguments''))"
    and "fetch b = Resolved r" and "r_ok r" and "r_json r = Inr P"
  shows "handleRpcMessage fetch msg responder io =
            Inr (io\<lparr>fetched := fetched io @ [b],
                    chan := responder (JObj [(''jsonrpc'', JStr ''2.0''), (''id'', get_prop msg ''id''),
                      (''result'', JObj [
                         (''content'', JArr [JObj [(''type'', JStr ''json''), (''data'', P)]]),
                         (''isError'', JBool False)])]) (chan io)\<rparr>)"
  unfolding tools_call_registered [OF assms(1,2)] handler_defs
  using assms(3-6) by simp

theorem backend_success_is_json_part_witness:
  "r_ok \<lparr>r_ok = True, r_status = 200, r_text = Inr ''{\"snippets\":[]}'',
         r_json = Inr (JObj [(''snippets'', JArr [])])\<rparr>
   \<and> handleRpcMessage
     (\<lambda>b. Resolved \<lparr>r_ok = True, r_status = 200, r_text = Inr ''{\"snippets\":[]}'',
                      r_json = Inr (JObj [(''snippets'', JArr [])])\<rparr>)
     (JObj [(''id'', JNum 2), (''method'', JStr ''tools/call''),
        (''params'', JObj [(''name'', JStr ''qdrant_search''),
           (''arguments'', JObj [(''query'', JStr ''karma''), (''traditions'', JStr ''buddhism'')])])])
     sendJSON \<lparr>fetched = [], chan = []\<rparr>
   = Inr \<lparr>fetched = [''{\"query\":\"karma\",\"traditions\":\"buddhism\",\"topK\":6,\"lang\":null}''],
          chan = [''{\"jsonrpc\":\"2.0\",\"id\":2,\"result\":{\"content\":[{\"type\":\"json\",\"data\":{\"snippets\":[]}}],\"isError\":false}}'']\<rparr>"
  using backend_success_is_json_part
    [where msg = "JObj [(''id'', JNum 2), (''method'', JStr ''tools/call''),
        (''params'', JObj [(''name'', JStr ''qdrant_search''),
           (''arguments'', JObj [(''query'', JStr ''karma''), (''traditions'', JStr ''buddhism'')])])]"
       and b = "''{\"query\":\"karma\",\"traditions\":\"buddhism\",\"topK\":6,\"lang\":null}''"
       and fetch = "\<lambda>b. Resolved \<lparr>r_ok = True, r_status = 200, r_text = Inr ''{\"snippets\":[]}'',
                      r_json = Inr (JObj [(''snippets'', JArr [])])\<rparr>"
       and r = "\<lparr>r_ok = True, r_status = 200, r_text = Inr ''{\"snippets\":[]}'',
                      r_json = Inr (JObj [(''snippets'', JArr [])])\<rparr>"
       and P = "JObj [(''snippets'', JArr [])]"
       and responder = sendJSON and io = "\<lparr>fetched = [], chan = []\<rparr>"]
  by (simp add: eval_defs)

text \<open>
  C6. A \<open>tools/call\<close> whose \<open>params.name\<close> is anything but the string \<open>qdrant_search\<close>
  (absent included) is answered with the error \<open>{code: -32601, message: "Unknown tool"}\<close>,
  and the backend is not called.
\<close>

theorem unknown_tool_is_fault:
  assumes "get_prop msg ''method'' = JStr ''tools/call''"
    and "get_prop (get_prop msg ''params'') ''name'' \<noteq> JStr ''qdrant_search''"
  shows "handleRpcMessage fetch msg responder io =
           Inr (io\<lparr>chan := responder (JObj [(''jsonrpc'', JStr ''2.0''), (''id'', get_prop msg ''id''),
                  (''error'', JObj [(''code'', JNum (- 32601)), (''message'', JStr ''Unknown tool'')])])
                  (chan io)\<rparr>)
       \<and> (\<forall>io'. handleRpcMessage fetch msg responder io = Inr io' \<longrightarrow> fetched io' = fetched io)"
proof -
  from assms(1) have m: "\<not> nullish msg" by (rule reads_string)
  note params_or_empty [simp]
  have "handleRpcMessage fetch msg responder io =
           Inr (io\<lparr>chan := responder (JObj [(''jsonrpc'', JStr ''2.0''), (''id'', get_prop msg ''id''),
                  (''error'', JObj [(''code'', JNum (- 32601)), (''message'', JStr ''Unknown tool'')])])
                  (chan io)\<rparr>)"
    using assms m by (simp add: handleRpcMessage_def Let_def reply_def)
  then show ?thesis by auto
qed

theorem unknown_tool_is_fault_witness:
  "get_prop (get_prop (JObj [(''id'', JStr ''a1''), (''method'', JStr ''tools/call''),
        (''params'', JObj [(''name'', JStr ''web_search''), (''arguments'', JObj [])])]) ''params'') ''name''
     \<noteq> JStr ''qdrant_search''
   \<and> handleRpcMessage (\<lambda>b. Rejected ''down'')
       (JObj [(''id'', JStr ''a1''), (''method'', JStr ''tools/call''),
          (''params'', JObj [(''name'', JStr ''web_search''), (''arguments'', JObj [])])])
       sendJSON \<lparr>fetched = [], chan = []\<rparr>
     = Inr \<lparr>fetched = [],
            chan = [''{\"jsonrpc\":\"2.0\",\"id\":\"a1\",\"error\":{\"code\":-32601,\"message\":\"Unknown tool\"}}'']\<rparr>"
  using unknown_tool_is_fault
    [where msg = "JObj [(''id'', JStr ''a1''), (''method'', JStr ''tools/call''),
          (''params'', JObj [(''name'', JStr ''web_search''), (''arguments'', JObj [])])]"
       and fetch = "\<lambda>b. Rejected ''down''"
       and responder = sendJSON and io = "\<lparr>fetched = [], chan = []\<rparr>"]
  by (simp add: eval_defs)

text \<open>
  In \<open>handleRpcMessage\<close> an \<open>initialize\<close> message is always answered with a \<open>result\<close>:
  the protocol version \<open>2024-05-14\<close>, the server identity \<open>akasha-mcp\<close> \<open>0.1.0\<close>, and
  capabilities that declare listing and calling of tools, and listing of prompts and of
  resources. The two lists that are declared are served empty: \<open>resources/list\<close>
  answers \<open>{resources: []}\<close> and \<open>prompts/list\<close> answers \<open>{prompts: []}\<close>.
\<close>

lemma handleRpcMessage_initialize:
  "(get_prop msg ''method'' = JStr ''initialize'' \<longrightarrow>
      handleRpcMessage fetch msg responder io =
        Inr (io\<lparr>chan := responder (JObj [(''jsonrpc'', JStr ''2.0''), (''id'', get_prop msg ''id''),
           (''result'', JObj [
              (''protocolVersion'', JStr ''2024-05-14''),
              (''serverInfo'', JObj [(''name'', JStr ''akasha-mcp''), (''version'', JStr ''0.1.0'')]),
              (''capabilities'', JObj [
                 (''tools'', JObj [(''list'', JBool True), (''call'', JBool True)]),
                 (''prompts'', JObj [(''list'', JBool True)]),
                 (''resources'', JObj [(''list'', JBool True)])])])]) (chan io)\<rparr>))
   \<and> (get_prop msg ''method'' = JStr ''resources/list'' \<longrightarrow>
      handleRpcMessage fetch msg responder io =
        Inr (io\<lparr>chan := responder (JObj [(''jsonrpc'', JStr ''2.0''), (''id'', get_prop msg ''id''),
           (''result'', JObj [(''resources'', JArr [])])]) (chan io)\<rparr>))
   \<and> (get_prop msg ''method'' = JStr ''prompts/list'' \<longrightarrow>
      handleRpcMessage fetch msg responder io =
        Inr (io\<lparr>chan := responder (JObj [(''jsonrpc'', JStr ''2.0''), (''id'', get_prop msg ''id''),
           (''result'', JObj [(''prompts'', JArr [])])]) (chan io)\<rparr>))"
proof (intro conjI impI)
  assume a: "get_prop msg ''method'' = JStr ''initialize''"
  then have "\<not> nullish msg" by (rule reads_string)
  with a show "handleRpcMessage fetch msg responder io =
        Inr (io\<lparr>chan := responder (JObj [(''jsonrpc'', JStr ''2.0''), (''id'', get_prop msg ''id''),
           (''result'', JObj [
              (''protocolVersion'', JStr ''2024-05-14''),
              (''serverInfo'', JObj [(''name'', JStr ''akasha-mcp''), (''version'', JStr ''0.1.0'')]),
              (''capabilities'', JObj [
                 (''tools'', JObj [(''list'', JBool True), (''call'', JBool True)]),
                 (''prompts'', JObj [(''list'', JBool True)]),
                 (''resources'', JObj [(''list'', JBool True)])])])]) (chan io)\<rparr>)"
    by (simp add: handleRpcMessage_def Let_def reply_def PROTOCOL_VERSION_def SERVER_NAME_def
          SERVER_VERSION_def)
next
  assume a: "get_prop msg ''method'' = JStr ''resources/list''"
  then have "\<not> nullish msg" by (rule reads_string)
  with a show "handleRpcMessage fetch msg responder io =
        Inr (io\<lparr>chan := responder (JObj [(''jsonrpc'', JStr ''2.0''), (''id'', get_prop msg ''id''),
           (''result'', JObj [(''resources'', JArr [])])]) (chan io)\<rparr>)"
    by (simp add: handleRpcMessage_def Let_def reply_def)
next
  assume a: "get_prop msg ''method'' = JStr ''prompts/list''"
  then have "\<not> nullish msg" by (rule reads_string)
  with a show "handleRpcMessage fetch msg responder io =
        Inr (io\<lparr>chan := responder (JObj [(''jsonrpc'', JStr ''2.0''), (''id'', get_prop msg ''id''),
           (''result'', JObj [(''prompts'', JArr [])])]) (chan io)\<rparr>)"
    by (simp add: handleRpcMessage_def Let_def reply_def)
qed

lemma handleRpcMessage_initialize_example:
  "handleRpcMessage (\<lambda>b. Rejected ''down'') (JObj [(''method'', JStr ''initialize''), (''id'', JNum 1)])
      sendJSON \<lparr>fetched = [], chan = []\<rparr>
     = Inr \<lparr>fetched = [], chan = [''{\"jsonrpc\":\"2.0\",\"id\":1,\"result\":{\"protocolVersion\":\"2024-05-14\",\"serverInfo\":{\"name\":\"akasha-mcp\",\"version\":\"0.1.0\"},\"capabilities\":{\"tools\":{\"list\":true,\"call\":true},\"prompts\":{\"list\":true},\"resources\":{\"list\":true}}}}'']\<rparr>
   \<and> handleRpcMessage (\<lambda>b. Rejected ''down'') (JObj [(''method'', JStr ''resources/list''), (''id'', JNum 2)])
      sendJSON \<lparr>fetched = [], chan = []\<rparr>
     = Inr \<lparr>fetched = [], chan = [''{\"jsonrpc\":\"2.0\",\"id\":2,\"result\":{\"resources\":[]}}'']\<rparr>
   \<and> handleRpcMessage (\<lambda>b. Rejected ''down'') (JObj [(''method'', JStr ''prompts/list''), (''id'', JNum 3)])
      sendJSON \<lparr>fetched = [], chan = []\<rparr>
     = Inr \<lparr>fetched = [], chan = [''{\"jsonrpc\":\"2.0\",\"id\":3,\"result\":{\"prompts\":[]}}'']\<rparr>"
  using
    handleRpcMessage_initialize
      [where msg = "JObj [(''method'', JStr ''initialize''), (''id'', JNum 1)]"
         and fetch = "\<lambda>b. Rejected ''down''" and responder = sendJSON
         and io = "\<lparr>fetched = [], chan = []\<rparr>"]
    handleRpcMessage_initialize
      [where msg = "JObj [(''method'', JStr ''resources/list''), (''id'', JNum 2)]"
         and fetch = "\<lambda>b. Rejected ''down''" and responder = sendJSON
         and io = "\<lparr>fetched = [], chan = []\<rparr>"]
    handleRpcMessage_initialize
      [where msg = "JObj [(''method'', JStr ''prompts/list''), (''id'', JNum 3)]"
         and fetch = "\<lambda>b. Rejected ''down''" and responder = sendJSON
         and io = "\<lparr>fetched = [], chan = []\<rparr>"]
  by (simp add: eval_defs)

text \<open>
  C7. Not every handler answers \<open>initialize\<close> with the server identity and capabilities
  that declare tool support. On \<open>{"jsonrpc":"2.0","id":1,"method":"initialize"}\<close> the lite
  gateway of \<open>part_000\<close> answers with the protocol version and \<open>capabilities: {}\<close>, without
  \<open>serverInfo\<close>, where \<open>handleRpcMessage\<close> of \<open>src/server.js\<close> answers the same message
  with the identity and the declared capabilities.
\<close>

theorem lite_initialize_declares_nothing:
  "lite_on_message
     (\<lambda>s. Some (JObj [(''jsonrpc'', JStr ''2.0''), (''id'', JNum 1), (''method'', JStr ''initialize'')]))
     fetch ''{\"jsonrpc\":\"2.0\",\"id\":1,\"method\":\"initialize\"}'' \<lparr>fetched = [], chan = []\<rparr>
   = Inr \<lparr>fetched = [],
          chan = [''{\"jsonrpc\":\"2.0\",\"id\":1,\"result\":{\"protocolVersion\":\"2024-05-14\",\"capabilities\":{}}}'']\<rparr>
   \<and> handleRpcMessage fetch
       (JObj [(''jsonrpc'', JStr ''2.0''), (''id'', JNum 1), (''method'', JStr ''initialize'')])
       sendJSON \<lparr>fetched = [], chan = []\<rparr>
   = Inr \<lparr>fetched = [],
          chan = [''{\"jsonrpc\":\"2.0\",\"id\":1,\"result\":{\"protocolVersion\":\"2024-05-14\",\"serverInfo\":{\"name\":\"akasha-mcp\",\"version\":\"0.1.0\"},\"capabilities\":{\"tools\":{\"list\":true,\"call\":true},\"prompts\":{\"list\":true},\"resources\":{\"list\":true}}}}'']\<rparr>"
  by (simp add: lite_on_message_def handleRpcMessage_def reply_def PROTOCOL_VERSION_def SERVER_NAME_def
        SERVER_VERSION_def eval_defs)

text \<open>
  C8. In \<open>src/server.js\<close> a decoded message without \<open>method\<close> is not dropped: it falls
  through every branch to the default and is answered with the error
  \<open>{code: -32601, message: "Method not found"}\<close>, here for \<open>{"jsonrpc":"2.0","id":1}\<close> on
  the handler and on the WebSocket.
\<close>

theorem no_method_is_answered:
  "handleRpcMessage fetch (JObj [(''jsonrpc'', JStr ''2.0''), (''id'', JNum 1)]) responder io
     = Inr (io\<lparr>chan := responder (JObj [(''jsonrpc'', JStr ''2.0''), (''id'', JNum 1),
              (''error'', JObj [(''code'', JNum (- 32601)), (''message'', JStr ''Method not found'')])])
              (chan io)\<rparr>)
   \<and> ws_on_message (\<lambda>s. Some (JObj [(''jsonrpc'', JStr ''2.0''), (''id'', JNum 1)])) fetch
        ''{\"jsonrpc\":\"2.0\",\"id\":1}'' \<lparr>fetched = [], chan = []\<rparr>
     = Inr \<lparr>fetched = [],
            chan = [''{\"jsonrpc\":\"2.0\",\"id\":1,\"error\":{\"code\":-32601,\"message\":\"Method not found\"}}'']\<rparr>"
  by (simp add: handleRpcMessage_def ws_on_message_def reply_def eval_defs)

text \<open>The handler of \<open>part_000\<close> returns on the same message without responding.\<close>

lemma no_method_part_000_drops:
  "handleRpcMessage_part_000 fetch (JObj [(''jsonrpc'', JStr ''2.0''), (''id'', JNum 1)]) respond io = io"
  by (simp add: part_000_drops js_or_def)

text \<open>
  C9, amended. For a \<open>tools/call\<close> of the registered tool the body posted to the backend
  has \<open>query\<close> and \<open>traditions\<close> as read from the arguments (left out by
  \<open>JSON.stringify\<close> when not supplied), \<open>topK\<close> as supplied unless it is missing or
  \<open>null\<close>, when it is 6, and \<open>lang\<close> as supplied unless it is missing or \<open>null\<close>, when it
  is \<open>null\<close>: the \<open>lang\<close> member is always present in the body.
\<close>

theorem request_body_fields:
  assumes "get_prop msg ''method'' = JStr ''tools/call''"
    and "get_prop (get_prop msg ''params'') ''name'' = JStr ''qdrant_search''"
    and "args = get_prop (get_prop msg ''params'') ''arguments''"
    and "topK = opt_chain args ''topK''" and "lang = opt_chain args ''lang''"
  shows "(\<exists>io'. handleRpcMessage fetch msg responder io = Inr io'
            \<and> fetched io' = fetched io @ [JSON_stringify (JObj [
                 (''query'', opt_chain args ''query''),
                 (''traditions'', opt_chain args ''traditions''),
                 (''topK'', if topK = JUndefined \<or> topK = JNull then JNum 6 else topK),
                 (''lang'', if lang = JUndefined \<or> lang = JNull then JNull else lang)])])
       \<and> (if lang = JUndefined \<or> lang = JNull then JNull else lang) \<noteq> JUndefined"
proof
  have body: "tool_body args = JObj [
                 (''query'', opt_chain args ''query''),
                 (''traditions'', opt_chain args ''traditions''),
                 (''topK'', if topK = JUndefined \<or> topK = JNull then JNum 6 else topK),
                 (''lang'', if lang = JUndefined \<or> lang = JNull then JNull else lang)]"
    unfolding assms(4,5) by (simp only: tool_body_def coalesce_def nullish_def)
  have "handleRpcMessage fetch msg responder io =
          Inr (call_backend fetch (get_prop msg ''id'') args responder io)"
    unfolding assms(3) using assms(1,2) by (rule tools_call_registered)
  moreover have "fetched (call_backend fetch (get_prop msg ''id'') args responder io)
                   = fetched io @ [JSON_stringify (tool_body args)]"
    by (rule call_backend_fetched)
  ultimately show "\<exists>io'. handleRpcMessage fetch msg responder io = Inr io'
            \<and> fetched io' = fetched io @ [JSON_stringify (JObj [
                 (''query'', opt_chain args ''query''),
                 (''traditions'', opt_chain args ''traditions''),
                 (''topK'', if topK = JUndefined \<or> topK = JNull then JNum 6 else topK),
                 (''lang'', if lang = JUndefined \<or> lang = JNull then JNull else lang)])]"
    unfolding body by blast
  show "(if lang = JUndefined \<or> lang = JNull then JNull else lang) \<noteq> JUndefined"
    by simp
qed

theorem request_body_fields_witness:
  "handleRpcMessage (\<lambda>b. Rejected ''down'')
     (JObj [(''id'', JNum 5), (''method'', JStr ''tools/call''),
        (''params'', JObj [(''name'', JStr ''qdrant_search''),
           (''arguments'', JObj [(''query'', JStr ''karma''),
              (''traditions'', JArr [JStr ''buddhism'', JStr ''vedanta'']),
              (''topK'', JNum 3), (''lang'', JStr ''en'')])])])
     sendJSON \<lparr>fetched = [], chan = []\<rparr>
   = Inr \<lparr>fetched = [''{\"query\":\"karma\",\"traditions\":[\"buddhism\",\"vedanta\"],\"topK\":3,\"lang\":\"en\"}''],
          chan = [''{\"jsonrpc\":\"2.0\",\"id\":5,\"result\":{\"content\":[{\"type\":\"text\",\"text\":\"Gateway error: down\"}],\"isError\":true}}'']\<rparr>"
  using request_body_fields
    [where msg = "JObj [(''id'', JNum 5), (''method'', JStr ''tools/call''),
        (''params'', JObj [(''name'', JStr ''qdrant_search''),
           (''arguments'', JObj [(''query'', JStr ''karma''),
              (''traditions'', JArr [JStr ''buddhism'', JStr ''vedanta'']),
              (''topK'', JNum 3), (''lang'', JStr ''en'')])])]"
       and args = "JObj [(''query'', JStr ''karma''),
              (''traditions'', JArr [JStr ''buddhism'', JStr ''vedanta'']),
              (''topK'', JNum 3), (''lang'', JStr ''en'')]"
       and topK = "JNum 3" and lang = "JStr ''en''"
       and fetch = "\<lambda>b. Rejected ''down''"
       and responder = sendJSON and io = "\<lparr>fetched = [], chan = []\<rparr>"]
  by (simp add: handleRpcMessage_def handler_defs eval_defs)

text \<open>
  A \<open>lang\<close> that is not supplied is not left out, and a supplied \<open>topK\<close> is not always
  kept: with arguments \<open>{query, traditions}\<close> the posted body ends in \<open>"lang":null\<close>, and
  a supplied \<open>topK: null\<close> is replaced by 6.
\<close>

theorem request_body_fields_counterexample:
  "handleRpcMessage (\<lambda>b. Rejected ''down'')
     (JObj [(''id'', JNum 5), (''method'', JStr ''tools/call''),
        (''params'', JObj [(''name'', JStr ''qdrant_search''),
           (''arguments'', JObj [(''query'', JStr ''karma''), (''traditions'', JStr ''buddhism'')])])])
     sendJSON \<lparr>fetched = [], chan = []\<rparr>
   = Inr \<lparr>fetched = [''{\"query\":\"karma\",\"traditions\":\"buddhism\",\"topK\":6,\"lang\":null}''],
          chan = [''{\"jsonrpc\":\"2.0\",\"id\":5,\"result\":{\"content\":[{\"type\":\"text\",\"text\":\"Gateway error: down\"}],\"isError\":true}}'']\<rparr>
   \<and> get_prop (tool_body (JObj [(''query'', JStr ''karma''), (''traditions'', JStr ''buddhism'')])) ''lang''
       = JNull
   \<and> get_prop (tool_body (JObj [(''query'', JStr ''karma''), (''traditions'', JStr ''buddhism''),
                                  (''topK'', JNull)])) ''topK''
       = JNum 6"
  by (simp add: handleRpcMessage_def handler_defs eval_defs)

text \<open>
  C10, amended. A \<open>tools/call\<close> never makes the handler raise. Without \<open>params\<close> the name
  check fails and the answer is the error \<open>{code: -32601, message: "Unknown tool"}\<close>, with
  no call to the backend. Without \<open>arguments\<close> the outcome follows \<open>params.name\<close>: any
  name but \<open>qdrant_search\<close> gives the same error, and \<open>qdrant_search\<close> passes the check, so
  the backend is called with the body \<open>{"topK":6,"lang":null}\<close> and the answer is a
  \<open>result\<close>. The handler of \<open>part_000\<close> does the same on every \<open>tools/call\<close>.
\<close>

theorem absent_params_or_arguments:
  assumes "get_prop msg ''method'' = JStr ''tools/call''"
  shows "(get_prop msg ''params'' = JUndefined \<longrightarrow>
            handleRpcMessage fetch msg responder io =
              Inr (io\<lparr>chan := responder (JObj [(''jsonrpc'', JStr ''2.0''), (''id'', get_prop msg ''id''),
                     (''error'', JObj [(''code'', JNum (- 32601)), (''message'', JStr ''Unknown tool'')])])
                     (chan io)\<rparr>))
       \<and> (get_prop (get_prop msg ''params'') ''arguments'' = JUndefined
            \<and> get_prop (get_prop msg ''params'') ''name'' \<noteq> JStr ''qdrant_search'' \<longrightarrow>
            handleRpcMessage fetch msg responder io =
              Inr (io\<lparr>chan := responder (JObj [(''jsonrpc'', JStr ''2.0''), (''id'', get_prop msg ''id''),
                     (''error'', JObj [(''code'', JNum (- 32601)), (''message'', JStr ''Unknown tool'')])])
                     (chan io)\<rparr>))
       \<and> (get_prop (get_prop msg ''params'') ''arguments'' = JUndefined
            \<and> get_prop (get_prop msg ''params'') ''name'' = JStr ''qdrant_search'' \<longrightarrow>
            (\<exists>payload. handleRpcMessage fetch msg responder io =
              Inr (io\<lparr>fetched := fetched io @ [''{\"topK\":6,\"lang\":null}''],
                      chan := responder (JObj [(''jsonrpc'', JStr ''2.0''), (''id'', get_prop msg ''id''),
                                               (''result'', payload)]) (chan io)\<rparr>)))
       \<and> handleRpcMessage fetch msg responder io = Inr (handleRpcMessage_part_000 fetch msg responder io)"
proof -
  from assms have m: "\<not> nullish msg" by (rule reads_string)
  have fault: "handleRpcMessage fetch msg responder io =
              Inr (io\<lparr>chan := responder (JObj [(''jsonrpc'', JStr ''2.0''), (''id'', get_prop msg ''id''),
                     (''error'', JObj [(''code'', JNum (- 32601)), (''message'', JStr ''Unknown tool'')])])
                     (chan io)\<rparr>)"
    if "get_prop (get_prop msg ''params'') ''name'' \<noteq> JStr ''qdrant_search''"
    using assms m that by (simp add: handleRpcMessage_def Let_def reply_def params_or_empty)
  have a: "get_prop msg ''params'' = JUndefined \<longrightarrow>
            handleRpcMessage fetch msg responder io =
              Inr (io\<lparr>chan := responder (JObj [(''jsonrpc'', JStr ''2.0''), (''id'', get_prop msg ''id''),
                     (''error'', JObj [(''code'', JNum (- 32601)), (''message'', JStr ''Unknown tool'')])])
                     (chan io)\<rparr>)"
    using fault by simp
  have b: "get_prop (get_prop msg ''params'') ''arguments'' = JUndefined
            \<and> get_prop (get_prop msg ''params'') ''name'' \<noteq> JStr ''qdrant_search'' \<longrightarrow>
            handleRpcMessage fetch msg responder io =
              Inr (io\<lparr>chan := responder (JObj [(''jsonrpc'', JStr ''2.0''), (''id'', get_prop msg ''id''),
                     (''error'', JObj [(''code'', JNum (- 32601)), (''message'', JStr ''Unknown tool'')])])
                     (chan io)\<rparr>)"
    using fault by simp
  have body: "JSON_stringify (tool_body JUndefined) = ''{\"topK\":6,\"lang\":null}''"
    by (simp add: eval_defs)
  have c: "get_prop (get_prop msg ''params'') ''arguments'' = JUndefined
            \<and> get_prop (get_prop msg ''params'') ''name'' = JStr ''qdrant_search'' \<longrightarrow>
            (\<exists>payload. handleRpcMessage fetch msg responder io =
              Inr (io\<lparr>fetched := fetched io @ [''{\"topK\":6,\"lang\":null}''],
                      chan := responder (JObj [(''jsonrpc'', JStr ''2.0''), (''id'', get_prop msg ''id''),
                                               (''result'', payload)]) (chan io)\<rparr>))"
  proof
    assume h: "get_prop (get_prop msg ''params'') ''arguments'' = JUndefined
            \<and> get_prop (get_prop msg ''params'') ''name'' = JStr ''qdrant_search''"
    then have n: "get_prop (get_prop msg ''params'') ''name'' = JStr ''qdrant_search''" by simp
    from h show "\<exists>payload. handleRpcMessage fetch msg responder io =
              Inr (io\<lparr>fetched := fetched io @ [''{\"topK\":6,\"lang\":null}''],
                      chan := responder (JObj [(''jsonrpc'', JStr ''2.0''), (''id'', get_prop msg ''id''),
                                               (''result'', payload)]) (chan io)\<rparr>)"
      unfolding tools_call_registered [OF assms n] handler_defs
      by (auto simp: body split: fetch_outcome.splits sum.splits)
  qed
  from assms have "truthy (get_prop msg ''method'')" by simp
  then have d: "handleRpcMessage fetch msg responder io = Inr (handleRpcMessage_part_000 fetch msg responder io)"
    by (rule part_000_agrees)
  from a b c d show ?thesis by blast
qed

theorem absent_params_or_arguments_witness:
  "handleRpcMessage (\<lambda>b. Rejected ''down'') (JObj [(''id'', JNum 1), (''method'', JStr ''tools/call'')])
       (\<lambda>obj sent. sent @ [obj]) \<lparr>fetched = [], chan = []\<rparr>
     = Inr \<lparr>fetched = [],
            chan = [JObj [(''jsonrpc'', JStr ''2.0''), (''id'', JNum 1),
                     (''error'', JObj [(''code'', JNum (- 32601)), (''message'', JStr ''Unknown tool'')])]]\<rparr>
   \<and> handleRpcMessage (\<lambda>b. Rejected ''down'')
       (JObj [(''id'', JNum 1), (''method'', JStr ''tools/call''), (''params'', JObj [(''name'', JStr ''other'')])])
       (\<lambda>obj sent. sent @ [obj]) \<lparr>fetched = [], chan = []\<rparr>
     = Inr \<lparr>fetched = [],
            chan = [JObj [(''jsonrpc'', JStr ''2.0''), (''id'', JNum 1),
                     (''error'', JObj [(''code'', JNum (- 32601)), (''message'', JStr ''Unknown tool'')])]]\<rparr>
   \<and> (\<exists>payload. handleRpcMessage (\<lambda>b. Rejected ''down'')
       (JObj [(''id'', JNum 1), (''method'', JStr ''tools/call''),
          (''params'', JObj [(''name'', JStr ''qdrant_search'')])])
       (\<lambda>obj sent. sent @ [obj]) \<lparr>fetched = [], chan = []\<rparr>
     = Inr \<lparr>fetched = [''{\"topK\":6,\"lang\":null}''],
            chan = [JObj [(''jsonrpc'', JStr ''2.0''), (''id'', JNum 1), (''result'', payload)]]\<rparr>)"
  using
    absent_params_or_arguments
      [where msg = "JObj [(''id'', JNum 1), (''method'', JStr ''tools/call'')]"
         and fetch = "\<lambda>b. Rejected ''down''" and responder = "\<lambda>obj sent. sent @ [obj]"
         and io = "\<lparr>fetched = [], chan = []\<rparr>", THEN conjunct1]
    absent_params_or_arguments
      [where msg = "JObj [(''id'', JNum 1), (''method'', JStr ''tools/call''),
                          (''params'', JObj [(''name'', JStr ''other'')])]"
         and fetch = "\<lambda>b. Rejected ''down''" and responder = "\<lambda>obj sent. sent @ [obj]"
         and io = "\<lparr>fetched = [], chan = []\<rparr>", THEN conjunct2, THEN conjunct1]
    absent_params_or_arguments
      [where msg = "JObj [(''id'', JNum 1), (''method'', JStr ''tools/call''),
                          (''params'', JObj [(''name'', JStr ''qdrant_search'')])]"
         and fetch = "\<lambda>b. Rejected ''down''" and responder = "\<lambda>obj sent. sent @ [obj]"
         and io = "\<lparr>fetched = [], chan = []\<rparr>", THEN conjunct2, THEN conjunct2, THEN conjunct1]
  by simp

text \<open>
  Absent \<open>arguments\<close> alone do not give the Unknown-tool error: on
  \<open>{id: 1, method: "tools/call", params: {name: "qdrant_search"}}\<close> the backend is called
  and the answer is a \<open>result\<close>.
\<close>

theorem absent_params_or_arguments_counterexample:
  "get_prop (get_prop (JObj [(''id'', JNum 1), (''method'', JStr ''tools/call''),
        (''params'', JObj [(''name'', JStr ''qdrant_search'')])]) ''params'') ''arguments'' = JUndefined
   \<and> handleRpcMessage (\<lambda>b. Rejected ''down'')
       (JObj [(''id'', JNum 1), (''method'', JStr ''tools/call''),
          (''params'', JObj [(''name'', JStr ''qdrant_search'')])])
       sendJSON \<lparr>fetched = [], chan = []\<rparr>
     = Inr \<lparr>fetched = [''{\"topK\":6,\"lang\":null}''],
            chan = [''{\"jsonrpc\":\"2.0\",\"id\":1,\"result\":{\"content\":[{\"type\":\"text\",\"text\":\"Gateway error: down\"}],\"isError\":true}}'']\<rparr>
   \<and> handleRpcMessage (\<lambda>b. Rejected ''down'')
       (JObj [(''id'', JNum 1), (''method'', JStr ''tools/call''),
          (''params'', JObj [(''name'', JStr ''qdrant_search'')])])
       sendJSON \<lparr>fetched = [], chan = []\<rparr>
     \<noteq> Inr \<lparr>fetched = [],
            chan = [''{\"jsonrpc\":\"2.0\",\"id\":1,\"error\":{\"code\":-32601,\"message\":\"Unknown tool\"}}'']\<rparr>"
  by (simp add: handleRpcMessage_def handler_defs eval_defs)

end
